theory Spec2Isabelle
  imports Complex_Main
begin

section \<open>Text, cells and frames\<close>

text \<open>
  Python and PostgreSQL text is a sequence of Unicode code points; the pipeline matches
  Cyrillic prefixes, so a text value is the list of its code points.  A data frame is the
  list of its rows, in row order.  Every frame the scripts build has a unique index
  (\<^verbatim>\<open>read_excel\<close> numbers the rows, a boolean selection keeps labels apart,
  \<^verbatim>\<open>reset_index(drop=True)\<close> renumbers them), so a row is identified by its
  position, label-based writes \<^verbatim>\<open>df.loc[i, col] = v\<close> hit exactly the row they
  were computed from, and \<^verbatim>\<open>reset_index\<close> is the identity on the list.  A value
  cell holds the text that \<^verbatim>\<open>astype("str")\<close> gives for it.

  What the Python library and the database compute from a text is not code of the
  scripts: Python's \<^verbatim>\<open>float\<close> and PostgreSQL's \<^verbatim>\<open>CAST(... AS FLOAT)\<close> are
  parameters of the functions that call them, \<open>None\<close> where they raise, and the numbers
  they return and the bounds of the reference table live in one linear order \<open>'n\<close>
  (the doubles with infinity, and the numbers of the table, all compared by value).
\<close>

type_synonym ustring = "nat list"

text \<open>
  The literals of the sources, by code point: "+", "-", the Cyrillic small letters pe and o,
  the Cyrillic capitals Pe and O, "N", and the conclusion words (transliterated names).
\<close>

definition s_plus :: ustring where "s_plus = [43]"
definition s_minus :: ustring where "s_minus = [45]"
definition s_pe :: ustring where "s_pe = [1087]"
definition s_o :: ustring where "s_o = [1086]"
definition s_Pe :: ustring where "s_Pe = [1055]"
definition s_O :: ustring where "s_O = [1054]"
definition s_N :: ustring where "s_N = [78]"

definition Polozhitelnyj :: ustring where
  "Polozhitelnyj = [1055, 1086, 1083, 1086, 1078, 1080, 1090, 1077, 1083, 1100, 1085, 1099, 1081]"

definition Otricatelnyj :: ustring where
  "Otricatelnyj = [1054, 1090, 1088, 1080, 1094, 1072, 1090, 1077, 1083, 1100, 1085, 1099, 1081]"

definition Povyshen :: ustring where
  "Povyshen = [1055, 1086, 1074, 1099, 1096, 1077, 1085]"

definition Ponizhen :: ustring where
  "Ponizhen = [1055, 1086, 1085, 1080, 1078, 1077, 1085]"

definition Norma :: ustring where
  "Norma = [1053, 1086, 1088, 1084, 1072]"

definition Nekorrektnoe :: ustring where
  "Nekorrektnoe = [1053, 1077, 1082, 1086, 1088, 1088, 1077, 1082, 1090, 1085, 1086, 1077, 32,
                   1079, 1085, 1072, 1095, 1077, 1085, 1080, 1077]"

text \<open>
  \<^verbatim>\<open>str.lower\<close> on the Latin and Cyrillic letters: A-Z, the Cyrillic capitals
  U+0410..U+042F (both 32 below their small letters) and U+0400..U+040F (80 below).
  Case pairs of other scripts are not part of the model.
\<close>

definition lower_cp :: "nat \<Rightarrow> nat" where
  "lower_cp c =
     (if 65 \<le> c \<and> c \<le> 90 then c + 32
      else if 1040 \<le> c \<and> c \<le> 1071 then c + 32
      else if 1024 \<le> c \<and> c \<le> 1039 then c + 80
      else c)"

definition lower :: "ustring \<Rightarrow> ustring" where
  "lower s = map lower_cp s"

definition startswith :: "ustring \<Rightarrow> ustring \<Rightarrow> bool" where
  "startswith s p = (take (length p) s = p)"

text \<open>\<^verbatim>\<open>str.startswith\<close> with a tuple of prefixes.\<close>

definition startswith_any :: "ustring \<Rightarrow> ustring list \<Rightarrow> bool" where
  "startswith_any s ps = list_ex (startswith s) ps"

text \<open>
  A row of the frame.  The two columns that \<^verbatim>\<open>check_range\<close> adds are optional:
  \<open>None\<close> is a frame without the column, \<open>Some None\<close> a cell holding Python's
  \<^verbatim>\<open>None\<close>.
\<close>

record row =
  patient :: int
  test :: ustring
  val :: ustring
  concl :: "ustring option option"
  elevated :: "bool option option"

type_synonym frame = "row list"

definition mk_row :: "int \<Rightarrow> ustring \<Rightarrow> ustring \<Rightarrow> row" where
  "mk_row p t v = \<lparr>patient = p, test = t, val = v, concl = None, elevated = None\<rparr>"

section \<open>filter_patients (both pandas revisions)\<close>

text \<open>\<^verbatim>\<open>df.groupby(patient_code).size()\<close>: one entry per patient code, keys sorted.\<close>

definition group_sizes :: "frame \<Rightarrow> (int \<times> int) list" where
  "group_sizes df =
     map (\<lambda>p. (p, int (length (filter (\<lambda>r. patient r = p) df))))
         (sort (remdups (map patient df)))"

definition filter_patients :: "frame \<Rightarrow> int \<Rightarrow> frame" where
  "filter_patients df test_count =
     (let groups = group_sizes df;
          pat_codes = filter (\<lambda>g. snd g \<ge> test_count) groups
      in filter (\<lambda>r. patient r \<in> set (map fst pat_codes)) df)"

section \<open>clean_values\<close>

text \<open>
  One turn of the loop over \<^verbatim>\<open>values_voc\<close>: the rows whose value starts with one
  of the patterns get the replacement.
\<close>

definition replace_matching :: "ustring \<times> ustring list \<Rightarrow> frame \<Rightarrow> frame" where
  "replace_matching e df =
     map (\<lambda>r. if startswith_any (val r) (snd e) then r\<lparr>val := fst e\<rparr> else r) df"

definition lower_values :: "frame \<Rightarrow> frame" where
  "lower_values df = map (\<lambda>r. r\<lparr>val := lower (val r)\<rparr>) df"

text \<open>
  \<^verbatim>\<open>decode_patients.py\<close>: \<^verbatim>\<open>values_voc\<close> maps "+" to the pattern
  U+043F (Cyrillic small pe) and "-" to the pattern U+043E (Cyrillic small o), in this order.
\<close>

definition values_voc_first :: "(ustring \<times> ustring list) list" where
  "values_voc_first = [(s_plus, [s_pe]), (s_minus, [s_o])]"

definition clean_values_first :: "frame \<Rightarrow> frame" where
  "clean_values_first df = fold replace_matching values_voc_first (lower_values df)"

text \<open>
  \<^verbatim>\<open>decode_patients_pandas.py\<close>: \<^verbatim>\<open>values_voc\<close> maps the word
  \<open>Polozhitelnyj\<close> ("positive") to the patterns (small pe, "+") and the word
  \<open>Otricatelnyj\<close> ("negative") to the patterns (small o, "-"), in this order.
\<close>

definition values_voc :: "(ustring \<times> ustring list) list" where
  "values_voc = [(Polozhitelnyj, [s_pe, s_plus]), (Otricatelnyj, [s_o, s_minus])]"

definition clean_values :: "frame \<Rightarrow> frame" where
  "clean_values df = fold replace_matching values_voc (lower_values df)"

section \<open>Reference ranges, numbers and errors\<close>

text \<open>
  A record of \<^verbatim>\<open>de.med_an_name\<close>: columns 0 to 4 of the frame that
  \<^verbatim>\<open>get_med_an_name\<close> builds, named \<^verbatim>\<open>id\<close>, \<^verbatim>\<open>name\<close>,
  \<^verbatim>\<open>min_value\<close> and \<^verbatim>\<open>max_value\<close> in the SQL.  Both bounds are present
  (SQL NULL is not part of the model).
\<close>

record 'n med =
  m_id :: ustring
  m_name :: ustring
  m_kind :: ustring
  min_value :: 'n
  max_value :: 'n

text \<open>A record of \<^verbatim>\<open>de.med_name\<close>.\<close>

record contact =
  c_id :: int
  c_name :: ustring
  c_phone :: ustring

text \<open>
  The exceptions of the runs: Python's IndexError, KeyError and ValueError, the data
  exception of a failed cast, and the exception that \<^verbatim>\<open>SQL_CHECK_CORRECT_VALUE\<close>
  raises.
\<close>

datatype error =
    IndexError
  | KeyError
  | ValueError
  | DataError
  | RaisedIncorrectValues

text \<open>
  The code points for which \<^verbatim>\<open>str.isdigit\<close> holds (Unicode 14.0, numeric type
  Decimal or Digit), as inclusive ranges: the ASCII digits, the superscript digits, the
  digits of the other scripts, circled digits and so on.
\<close>

definition digit_ranges :: "(nat \<times> nat) list" where
  "digit_ranges =
    [(48, 57), (178, 179), (185, 185), (1632, 1641), (1776, 1785), (1984, 1993),
     (2406, 2415), (2534, 2543), (2662, 2671), (2790, 2799), (2918, 2927), (3046, 3055),
     (3174, 3183), (3302, 3311), (3430, 3439), (3558, 3567), (3664, 3673), (3792, 3801),
     (3872, 3881), (4160, 4169), (4240, 4249), (4969, 4977), (6112, 6121), (6160, 6169),
     (6470, 6479), (6608, 6618), (6784, 6793), (6800, 6809), (6992, 7001), (7088, 7097),
     (7232, 7241), (7248, 7257), (8304, 8304), (8308, 8313), (8320, 8329), (9312, 9320),
     (9332, 9340), (9352, 9360), (9450, 9450), (9461, 9469), (9471, 9471), (10102, 10110),
     (10112, 10120), (10122, 10130), (42528, 42537), (43216, 43225), (43264, 43273),
     (43472, 43481), (43504, 43513), (43600, 43609), (44016, 44025), (65296, 65305),
     (66720, 66729), (68160, 68163), (68912, 68921), (69216, 69224), (69714, 69722),
     (69734, 69743), (69872, 69881), (69942, 69951), (70096, 70105), (70384, 70393),
     (70736, 70745), (70864, 70873), (71248, 71257), (71360, 71369), (71472, 71481),
     (71904, 71913), (72016, 72025), (72784, 72793), (73040, 73049), (73120, 73129),
     (92768, 92777), (92864, 92873), (93008, 93017), (120782, 120831), (123200, 123209),
     (123632, 123641), (125264, 125273), (127232, 127242), (130032, 130041)]"

definition is_digit :: "nat \<Rightarrow> bool" where
  "is_digit c = list_ex (\<lambda>r. fst r \<le> c \<and> c \<le> snd r) digit_ranges"

text \<open>\<^verbatim>\<open>str.isdigit\<close>: at least one character, and every character a digit.\<close>

definition isdigit :: "ustring \<Rightarrow> bool" where
  "isdigit s = (s \<noteq> [] \<and> list_all is_digit s)"

text \<open>The class \<^verbatim>\<open>[0-9]\<close> of the regular expression in the SQL.\<close>

definition ascii_digit :: "nat \<Rightarrow> bool" where
  "ascii_digit c = (48 \<le> c \<and> c \<le> 57)"

text \<open>
  An instance for the two library parameters on the concrete runs below: the exact value
  of a text of ASCII digits with at most one period and at least one digit, \<open>None\<close> on
  every other text.  Each text that a concrete run below passes to \<^verbatim>\<open>float\<close> or to
  the cast has at most four characters and its value is a double, so both return exactly
  this value there; each text the instance rejects there is rejected by both as well.
\<close>

definition digits_value :: "ustring \<Rightarrow> nat" where
  "digits_value ds = foldl (\<lambda>a c. 10 * a + (c - 48)) 0 ds"

definition exact_decimal :: "ustring \<Rightarrow> rat option" where
  "exact_decimal s =
     (let ip = takeWhile (\<lambda>c. c \<noteq> 46) s;
          fp = drop 1 (dropWhile (\<lambda>c. c \<noteq> 46) s)
      in if ip @ fp \<noteq> [] \<and> list_all ascii_digit (ip @ fp)
         then Some (of_nat (digits_value ip) + of_nat (digits_value fp) / 10 ^ length fp)
         else None)"

text \<open>The records selected by \<^verbatim>\<open>med_df[med_df[0] == t]\<close>, and the first of them.\<close>

definition first_match :: "'n med list \<Rightarrow> ustring \<Rightarrow> 'n med option" where
  "first_match med_df t = (case filter (\<lambda>m. m_id m = t) med_df of [] \<Rightarrow> None | m # _ \<Rightarrow> Some m)"

section \<open>check_range of the first revision (decode_patients.py)\<close>

text \<open>
  The loop over \<^verbatim>\<open>df.iterrows()\<close>: the lookup with \<^verbatim>\<open>.values[0]\<close>, then
  \<^verbatim>\<open>float\<close>, here the parameter \<open>flt\<close>.
\<close>

fun assign_elevated ::
  "(ustring \<Rightarrow> 'n::linorder option) \<Rightarrow> 'n med list \<Rightarrow> frame \<Rightarrow> error + frame" where
  "assign_elevated flt med_df [] = Inr []"
| "assign_elevated flt med_df (r # rs) =
     (case first_match med_df (test r) of
        None \<Rightarrow> Inl IndexError
      | Some m \<Rightarrow>
          (case flt (val r) of
             None \<Rightarrow> Inl ValueError
           | Some curr_val \<Rightarrow>
               (let r' = (if max_value m < curr_val then r\<lparr>elevated := Some (Some True)\<rparr>
                          else if min_value m > curr_val then r\<lparr>elevated := Some (Some False)\<rparr>
                          else r)
                in case assign_elevated flt med_df rs of
                     Inl e \<Rightarrow> Inl e
                   | Inr rs' \<Rightarrow> Inr (r' # rs'))))"

text \<open>
  The call returns the caller's two frames as they are after the call, and the result.
  Both arguments are copied first and every write goes to the copies.  A reference frame
  built from zero records has no columns, and selecting column 2 raises KeyError.
\<close>

definition check_range_first ::
  "(ustring \<Rightarrow> 'n::linorder option) \<Rightarrow> frame \<Rightarrow> 'n med list
     \<Rightarrow> frame \<times> 'n med list \<times> (error + frame)" where
  "check_range_first flt df med_df =
     (let med_copy = med_df;
          df_copy = df
      in if med_copy = [] then (df, med_df, Inl KeyError)
         else
           (let med_n = filter (\<lambda>m. m_kind m = s_N) med_copy;
                unique_test_names = remdups (map m_id med_n);
                df1 = filter (\<lambda>r. test r \<in> set unique_test_names) df_copy;
                df2 = map (\<lambda>r. r\<lparr>elevated := Some None\<rparr>) df1
            in (df, med_df, assign_elevated flt med_n df2)))"

section \<open>check_range of the pandas rewrite (decode_patients_pandas.py)\<close>

definition numeric_mask :: "ustring \<Rightarrow> bool" where
  "numeric_mask x = isdigit (remove1 46 x)"

text \<open>The \<^verbatim>\<open>if / elif / elif\<close> chain; \<open>None\<close> when no branch assigns.\<close>

definition range_conclusion :: "'n::linorder \<Rightarrow> 'n \<Rightarrow> 'n \<Rightarrow> ustring option" where
  "range_conclusion min_val max_val curr_val =
     (if max_val < curr_val then Some Povyshen
      else if min_val > curr_val then Some Ponizhen
      else if min_val \<le> curr_val \<and> curr_val \<le> max_val then Some Norma
      else None)"

text \<open>
  The lookup of the loop: selecting column 0 of a reference frame built from zero records
  raises KeyError, \<^verbatim>\<open>.values[0]\<close> on an empty selection raises IndexError.
\<close>

definition lookup_range :: "'n med list \<Rightarrow> ustring \<Rightarrow> error + 'n med" where
  "lookup_range med_df t =
     (if med_df = [] then Inl KeyError
      else case first_match med_df t of None \<Rightarrow> Inl IndexError | Some m \<Rightarrow> Inr m)"

text \<open>
  The loop over the numeric rows: \<^verbatim>\<open>float\<close> (the parameter \<open>flt\<close>), the lookup,
  the comparison.  It writes into the frame itself; when a row raises, the rows written so
  far stay written.
\<close>

fun assign_numeric ::
  "(ustring \<Rightarrow> 'n::linorder option) \<Rightarrow> 'n med list \<Rightarrow> frame \<Rightarrow> frame \<times> error option" where
  "assign_numeric flt med_df [] = ([], None)"
| "assign_numeric flt med_df (r # rs) =
     (if numeric_mask (val r) then
        (case flt (val r) of
           None \<Rightarrow> (r # rs, Some ValueError)
         | Some curr_val \<Rightarrow>
             (case lookup_range med_df (test r) of
                Inl e \<Rightarrow> (r # rs, Some e)
              | Inr m \<Rightarrow>
                  (let r' = (case range_conclusion (min_value m) (max_value m) curr_val of
                               None \<Rightarrow> r
                             | Some c \<Rightarrow> r\<lparr>concl := Some (Some c)\<rparr>);
                       rest = assign_numeric flt med_df rs
                   in (r' # fst rest, snd rest))))
      else (let rest = assign_numeric flt med_df rs in (r # fst rest, snd rest)))"

text \<open>The statements before the aggregation: the frame after them, and the error if one was raised.\<close>

definition assign_conclusions ::
  "(ustring \<Rightarrow> 'n::linorder option) \<Rightarrow> 'n med list \<Rightarrow> frame \<Rightarrow> frame \<times> error option" where
  "assign_conclusions flt med_df df =
     (let df1 = map (\<lambda>r. r\<lparr>concl := Some None\<rparr>) df;
          df2 = map (\<lambda>r. if \<not> numeric_mask (val r) then r\<lparr>concl := Some (Some (val r))\<rparr> else r) df1
      in assign_numeric flt med_df df2)"

text \<open>The lambda of the aggregation: the cells that are neither \<open>Norma\<close> nor \<open>Otricatelnyj\<close>.\<close>

definition bad_tests :: "frame \<Rightarrow> int" where
  "bad_tests g =
     int (length (filter (\<lambda>r. concl r \<noteq> Some (Some Norma) \<and> concl r \<noteq> Some (Some Otricatelnyj)) g))"

text \<open>One row per patient code: the code, the number of tests, the number of bad tests.\<close>

definition grouped :: "frame \<Rightarrow> (int \<times> int \<times> int) list" where
  "grouped df =
     map (\<lambda>p. (let g = filter (\<lambda>r. patient r = p) df in (p, int (length g), bad_tests g)))
         (sort (remdups (map patient df)))"

definition is_reported :: "ustring option option \<Rightarrow> bool" where
  "is_reported c = (c = Some (Some Povyshen) \<or> c = Some (Some Ponizhen) \<or> c = Some (Some Polozhitelnyj))"

definition aggregate :: "frame \<Rightarrow> int \<Rightarrow> (int \<times> ustring \<times> ustring option option) list" where
  "aggregate df test_count =
     (let kept = filter (\<lambda>g. snd (snd g) \<ge> test_count) (grouped df);
          filtered_df = filter (\<lambda>r. patient r \<in> set (map fst kept)) df
      in map (\<lambda>r. (patient r, test r, concl r)) (filter (\<lambda>r. is_reported (concl r)) filtered_df))"

text \<open>
  The call returns the caller's frame as it is after the call, and the result: the final
  table, or the error raised.
\<close>

definition check_range ::
  "(ustring \<Rightarrow> 'n::linorder option) \<Rightarrow> frame \<Rightarrow> 'n med list \<Rightarrow> int
     \<Rightarrow> frame \<times> (error + (int \<times> ustring \<times> ustring option option) list)" where
  "check_range flt df med_df test_count =
     (let st = assign_conclusions flt med_df df
      in case snd st of
           Some e \<Rightarrow> (fst st, Inl e)
         | None \<Rightarrow> (fst st, Inr (aggregate (fst st) test_count)))"

text \<open>The inner merge on the patient code, left order kept.\<close>

definition get_final_table ::
  "(int \<times> ustring \<times> ustring option option) list \<Rightarrow> contact list
     \<Rightarrow> (ustring \<times> ustring \<times> ustring \<times> ustring option option) list" where
  "get_final_table df1 df2 =
     concat (map (\<lambda>(p, t, c). map (\<lambda>k. (c_phone k, c_name k, t, c)) (filter (\<lambda>k. c_id k = p) df2)) df1)"

text \<open>The main block, from the frame read from the spreadsheet to the final table.\<close>

definition main_pandas ::
  "(ustring \<Rightarrow> 'n::linorder option) \<Rightarrow> frame \<Rightarrow> 'n med list \<Rightarrow> contact list
     \<Rightarrow> error + (ustring \<times> ustring \<times> ustring \<times> ustring option option) list" where
  "main_pandas flt df0 med_df med_name_df =
     (let df1 = filter_patients df0 2;
          df2 = clean_values df1
      in case snd (check_range flt df2 med_df 2) of
           Inl e \<Rightarrow> Inl e
         | Inr df3 \<Rightarrow> Inr (get_final_table df3 med_name_df))"

section \<open>The SQL revision (decode_patients_sql.py)\<close>

text \<open>
  The load loop: \<^verbatim>\<open>str(row[...]).replace(",", ".")\<close> on every value, then one
  INSERT per row into the temporary table \<^verbatim>\<open>medicine\<close>.
\<close>

definition replace_comma :: "ustring \<Rightarrow> ustring" where
  "replace_comma s = map (\<lambda>c. if c = 44 then 46 else c) s"

definition load_medicine :: "frame \<Rightarrow> frame" where
  "load_medicine df = map (\<lambda>r. r\<lparr>val := replace_comma (val r)\<rparr>) df"

text \<open>
  \<^verbatim>\<open>SQL_CLEAN_VALUES\<close>: the regular expressions anchor one capital letter at the
  start of the value, and \<^verbatim>\<open>~\<close> is case-sensitive.
\<close>

definition sql_clean_values :: "frame \<Rightarrow> frame" where
  "sql_clean_values medicine =
     map (\<lambda>r. r\<lparr>val := (if startswith (val r) s_Pe then s_plus
                         else if startswith (val r) s_O then s_minus
                         else val r)\<rparr>) medicine"

record 'n decoded =
  d_patient :: int
  d_test :: ustring
  d_name :: ustring
  d_value :: ustring
  d_min :: 'n
  d_max :: 'n
  d_concl :: ustring

text \<open>The regular expression \<^verbatim>\<open>^[0-9.]+$\<close>.\<close>

definition matches_numeric :: "ustring \<Rightarrow> bool" where
  "matches_numeric v = (v \<noteq> [] \<and> list_all (\<lambda>c. ascii_digit c \<or> c = 46) v)"

text \<open>
  The CASE of \<^verbatim>\<open>SQL_DECODE_ANALYSIS\<close>, branch by branch.  The cast, the parameter
  \<open>cast\<close>, is evaluated only where the regular expression matches; it fails on a text
  such as "1.2.3" and on a number out of the range of the type.
\<close>

definition decode_conclusion ::
  "(ustring \<Rightarrow> 'n::linorder option) \<Rightarrow> ustring \<Rightarrow> 'n \<Rightarrow> 'n \<Rightarrow> error + ustring" where
  "decode_conclusion cast v min_v max_v =
     (if v = s_plus then Inr Polozhitelnyj
      else if v = s_minus then Inr Otricatelnyj
      else if matches_numeric v then
        (case cast v of
           None \<Rightarrow> Inl DataError
         | Some x \<Rightarrow>
             if x < min_v then Inr Ponizhen
             else if x > max_v then Inr Povyshen
             else Inr Norma)
      else Inr Nekorrektnoe)"

fun all_or_error :: "(error + 'a) list \<Rightarrow> error + 'a list" where
  "all_or_error [] = Inr []"
| "all_or_error (Inl e # xs) = Inl e"
| "all_or_error (Inr x # xs) = (case all_or_error xs of Inl e \<Rightarrow> Inl e | Inr ys \<Rightarrow> Inr (x # ys))"

text \<open>The inner join of \<^verbatim>\<open>cleaned_data\<close> with \<^verbatim>\<open>de.med_an_name\<close> on the test id.\<close>

definition sql_decode_analysis ::
  "(ustring \<Rightarrow> 'n::linorder option) \<Rightarrow> 'n med list \<Rightarrow> frame \<Rightarrow> error + 'n decoded list" where
  "sql_decode_analysis cast man cd =
     all_or_error
       (concat (map (\<lambda>r. map (\<lambda>m.
          (case decode_conclusion cast (val r) (min_value m) (max_value m) of
             Inl e \<Rightarrow> Inl e
           | Inr c \<Rightarrow> Inr \<lparr>d_patient = patient r, d_test = test r, d_name = m_name m,
                            d_value = val r, d_min = min_value m, d_max = max_value m,
                            d_concl = c\<rparr>))
          (filter (\<lambda>m. test r = m_id m) man)) cd))"

definition sql_check_correct_value :: "'n decoded list \<Rightarrow> error + unit" where
  "sql_check_correct_value dd =
     (if list_ex (\<lambda>d. d_concl d = Nekorrektnoe) dd then Inl RaisedIncorrectValues else Inr ())"

definition sql_bad :: "ustring \<Rightarrow> bool" where
  "sql_bad c = (c = Povyshen \<or> c = Ponizhen \<or> c = Polozhitelnyj)"

text \<open>\<^verbatim>\<open>SQL_FILTER_PATIENTS\<close>: patient code, number of tests, number of bad tests.\<close>

definition sql_filter_patients :: "'n decoded list \<Rightarrow> (int \<times> int \<times> int) list" where
  "sql_filter_patients dd =
     filter (\<lambda>g. snd (snd g) \<ge> 2)
       (map (\<lambda>p. (let g = filter (\<lambda>d. d_patient d = p) dd
                  in (p, int (length g), int (length (filter (\<lambda>d. sql_bad (d_concl d)) g)))))
            (remdups (map d_patient dd)))"

definition sql_final_results_with_patients ::
  "(int \<times> int \<times> int) list \<Rightarrow> 'n decoded list \<Rightarrow> contact list
     \<Rightarrow> (ustring \<times> ustring \<times> ustring \<times> ustring) list" where
  "sql_final_results_with_patients fp dd mn =
     concat (map (\<lambda>g.
       concat (map (\<lambda>d. map (\<lambda>k. (c_phone k, c_name k, d_name d, d_concl d))
                             (filter (\<lambda>k. fst g = c_id k) mn))
                   (filter (\<lambda>d. fst g = d_patient d \<and> sql_bad (d_concl d)) dd))) fp)"

text \<open>The statements of the script in their order; an error ends the run.\<close>

definition main_sql ::
  "(ustring \<Rightarrow> 'n::linorder option) \<Rightarrow> frame \<Rightarrow> 'n med list \<Rightarrow> contact list
     \<Rightarrow> error + (ustring \<times> ustring \<times> ustring \<times> ustring) list" where
  "main_sql cast df man mn =
     (let medicine = load_medicine df;
          cleaned_data = sql_clean_values medicine
      in case sql_decode_analysis cast man cleaned_data of
           Inl e \<Rightarrow> Inl e
         | Inr decoded_data \<Rightarrow>
             (case sql_check_correct_value decoded_data of
                Inl e \<Rightarrow> Inl e
              | Inr u \<Rightarrow>
                  Inr (sql_final_results_with_patients
                         (sql_filter_patients decoded_data) decoded_data mn)))"

section \<open>Facts about text and the normalisers\<close>

lemmas lit_defs = s_plus_def s_minus_def s_pe_def s_o_def s_Pe_def s_O_def s_N_def
  Polozhitelnyj_def Otricatelnyj_def Povyshen_def Ponizhen_def Norma_def Nekorrektnoe_def

lemma clean_values_map:
  "clean_values df =
     map (\<lambda>r. r\<lparr>val := (if startswith_any (lower (val r)) [s_pe, s_plus] then Polozhitelnyj
                       else if startswith_any (lower (val r)) [s_o, s_minus] then Otricatelnyj
                       else lower (val r))\<rparr>) df"
  by (simp add: clean_values_def values_voc_def replace_matching_def lower_values_def
      startswith_any_def startswith_def lit_defs)

lemma clean_values_first_map:
  "clean_values_first df =
     map (\<lambda>r. r\<lparr>val := (if startswith (lower (val r)) s_pe then s_plus
                       else if startswith (lower (val r)) s_o then s_minus
                       else lower (val r))\<rparr>) df"
  by (simp add: clean_values_first_def values_voc_first_def replace_matching_def lower_values_def
      startswith_any_def startswith_def lit_defs)

lemma lower_cp_idem: "lower_cp (lower_cp c) = lower_cp c"
  by (simp add: lower_cp_def)

lemma lower_idem: "lower (lower s) = lower s"
  by (simp add: lower_def lower_cp_idem)

lemma lower_words:
  "lower Polozhitelnyj = 1087 # tl Polozhitelnyj"
  "lower Otricatelnyj = 1086 # tl Otricatelnyj"
  "lower s_plus = s_plus" "lower s_minus = s_minus"
  by (simp_all add: lower_def lower_cp_def lit_defs)

section \<open>The raw-count gate\<close>

lemma group_codes:
  "set (map fst (filter (\<lambda>g. snd g \<ge> tc) (group_sizes df))) =
     {p \<in> patient ` set df. int (length (filter (\<lambda>r. patient r = p) df)) \<ge> tc}"
  by (force simp: group_sizes_def)

lemma filter_patients_filter:
  "filter_patients df tc =
     filter (\<lambda>r. int (length (filter (\<lambda>x. patient x = patient r) df)) \<ge> tc) df"
  unfolding filter_patients_def Let_def group_codes
  by (rule filter_cong) auto

lemma filter_patients_val:
  "filter_patients (map (\<lambda>r. r\<lparr>val := f r\<rparr>) df) tc = map (\<lambda>r. r\<lparr>val := f r\<rparr>) (filter_patients df tc)"
  by (simp add: filter_patients_filter filter_map comp_def)

lemma filter_patients_idem:
  "filter_patients (filter_patients df tc) tc = filter_patients df tc"
proof -
  let ?P = "\<lambda>r. int (length (filter (\<lambda>x. patient x = patient r) df)) \<ge> tc"
  let ?df' = "filter ?P df"
  let ?P' = "\<lambda>r. int (length (filter (\<lambda>x. patient x = patient r) ?df')) \<ge> tc"
  have eq: "filter (\<lambda>x. patient x = patient r) ?df' = filter (\<lambda>x. patient x = patient r) df"
    if "?P r" for r :: row
  proof -
    have "filter (\<lambda>x. patient x = patient r) ?df' =
          filter (\<lambda>x. ?P x \<and> patient x = patient r) df"
      by (simp only: filter_filter)
    also have "\<dots> = filter (\<lambda>x. patient x = patient r) df"
      using that by (intro filter_cong) auto
    finally show ?thesis .
  qed
  have "\<forall>r\<in>set ?df'. ?P' r"
  proof
    fix r assume "r \<in> set ?df'"
    then have "?P r" by simp
    with eq [OF this] show "?P' r" by (simp only:)
  qed
  then have "filter ?P' ?df' = ?df'"
    by (simp only: filter_id_conv)
  then show ?thesis
    by (simp only: filter_patients_filter)
qed

text \<open>
  C7.  \<^verbatim>\<open>filter_patients\<close> keeps, in their order, exactly the rows of the patients
  that have at least \<open>test_count\<close> rows in the raw frame.  The values play no part:
  rewriting the value column commutes with the gate.  The main block applies the gate
  (with 2) before \<^verbatim>\<open>clean_values\<close> and \<^verbatim>\<open>check_range\<close>, so its result is the
  result on the retained rows alone.
\<close>

theorem filter_patients_by_raw_count:
  "filter_patients df test_count =
     filter (\<lambda>r. int (length (filter (\<lambda>x. patient x = patient r) df)) \<ge> test_count) df
   \<and> filter_patients (map (\<lambda>r. r\<lparr>val := f r\<rparr>) df) test_count =
       map (\<lambda>r. r\<lparr>val := f r\<rparr>) (filter_patients df test_count)
   \<and> main_pandas flt df med_df med_name_df = main_pandas flt (filter_patients df 2) med_df med_name_df"
  by (simp add: filter_patients_filter [symmetric] filter_patients_val main_pandas_def filter_patients_idem)

theorem filter_patients_by_raw_count_witness:
  "filter_patients [mk_row 1 [65] [53], mk_row 2 [65] [1087], mk_row 1 [66] [55]] 2 =
     [mk_row 1 [65] [53], mk_row 1 [66] [55]]
   \<and> filter_patients
         (map (\<lambda>r. r\<lparr>val := [48]\<rparr>) [mk_row 1 [65] [53], mk_row 2 [65] [1087], mk_row 1 [66] [55]]) 2 =
       [mk_row 1 [65] [48], mk_row 1 [66] [48]]
   \<and> main_pandas exact_decimal [mk_row 1 [65] [53], mk_row 2 [65] [1087], mk_row 1 [66] [55]]
         [\<lparr>m_id = [65], m_name = [], m_kind = s_N, min_value = 10, max_value = 15\<rparr>,
          \<lparr>m_id = [66], m_name = [], m_kind = s_N, min_value = 10, max_value = 15\<rparr>]
         [\<lparr>c_id = 1, c_name = [], c_phone = []\<rparr>] =
       main_pandas exact_decimal [mk_row 1 [65] [53], mk_row 1 [66] [55]]
         [\<lparr>m_id = [65], m_name = [], m_kind = s_N, min_value = 10, max_value = 15\<rparr>,
          \<lparr>m_id = [66], m_name = [], m_kind = s_N, min_value = 10, max_value = 15\<rparr>]
         [\<lparr>c_id = 1, c_name = [], c_phone = []\<rparr>]"
  using filter_patients_by_raw_count
          [of "[mk_row 1 [65] [53], mk_row 2 [65] [1087], mk_row 1 [66] [55]]" 2 "\<lambda>r. [48]"
              exact_decimal
              "[\<lparr>m_id = [65], m_name = [], m_kind = s_N, min_value = 10, max_value = 15\<rparr>,
                \<lparr>m_id = [66], m_name = [], m_kind = s_N, min_value = 10, max_value = 15\<rparr>]"
              "[\<lparr>c_id = 1, c_name = [], c_phone = []\<rparr>]"]
  by (simp add: mk_row_def)

section \<open>Idempotence of clean_values\<close>

text \<open>
  C8, as amended.  Both \<^verbatim>\<open>clean_values\<close> are idempotent on every frame.  The first
  revision returns a value that already is "+" or "-" unchanged; the pandas rewrite
  returns a value that already is one of its two marker words unchanged.
\<close>

theorem clean_values_idempotent:
  "clean_values_first (clean_values_first df) = clean_values_first df
   \<and> clean_values (clean_values df) = clean_values df
   \<and> (val r = s_plus \<or> val r = s_minus \<longrightarrow> clean_values_first [r] = [r])
   \<and> (val r = Polozhitelnyj \<or> val r = Otricatelnyj \<longrightarrow> clean_values [r] = [r])"
proof (intro conjI)
  show "clean_values_first (clean_values_first df) = clean_values_first df"
    by (simp add: clean_values_first_map comp_def lower_idem lower_words)
       (simp add: startswith_def lit_defs)
  show "clean_values (clean_values df) = clean_values df"
    by (simp add: clean_values_map comp_def lower_idem lower_words)
       (simp add: startswith_any_def startswith_def lit_defs)
  show "val r = s_plus \<or> val r = s_minus \<longrightarrow> clean_values_first [r] = [r]"
    by (auto simp: clean_values_first_map lower_words) (simp_all add: startswith_def lit_defs)
  show "val r = Polozhitelnyj \<or> val r = Otricatelnyj \<longrightarrow> clean_values [r] = [r]"
    by (auto simp: clean_values_map lower_words) (simp_all add: startswith_any_def startswith_def lit_defs)
qed

theorem clean_values_idempotent_witness:
  "clean_values_first (clean_values_first [mk_row 1 [65] [1055, 1086, 1083]]) =
     [mk_row 1 [65] s_plus]
   \<and> clean_values (clean_values [mk_row 1 [65] [1055, 1086, 1083]]) =
       [mk_row 1 [65] Polozhitelnyj]
   \<and> clean_values_first [mk_row 1 [65] s_minus] = [mk_row 1 [65] s_minus]
   \<and> clean_values [mk_row 1 [65] Otricatelnyj] = [mk_row 1 [65] Otricatelnyj]"
  using clean_values_idempotent [of "[mk_row 1 [65] [1055, 1086, 1083]]" "mk_row 1 [65] s_minus"]
        clean_values_idempotent [of "[]" "mk_row 1 [65] Otricatelnyj"]
  by (simp add: mk_row_def clean_values_map clean_values_first_map lower_def lower_cp_def
        startswith_any_def startswith_def lit_defs)

text \<open>
  C8 as stated fails in the pandas rewrite: "+" is one of the patterns of the positive
  word, so the value "+" is rewritten to that word.
\<close>

theorem clean_values_plus_counterexample:
  "clean_values [mk_row 1 [65] s_plus] \<noteq> [mk_row 1 [65] s_plus]
   \<and> clean_values [mk_row 1 [65] s_plus] = [mk_row 1 [65] Polozhitelnyj]"
  by (simp add: mk_row_def clean_values_map lower_def lower_cp_def
        startswith_any_def startswith_def lit_defs)

section \<open>The conclusions written by check_range\<close>


lemma is_digit_low:
  "c < 1632 \<Longrightarrow> is_digit c \<longleftrightarrow> 48 \<le> c \<and> c \<le> 57 \<or> c = 178 \<or> c = 179 \<or> c = 185"
  by (auto simp: is_digit_def digit_ranges_def)

lemma not_numeric_words: "\<not> numeric_mask Otricatelnyj" "\<not> numeric_mask Polozhitelnyj"
  by (simp_all add: numeric_mask_def isdigit_def is_digit_low lit_defs)


lemma length_assign_numeric: "length (fst (assign_numeric flt med_df df)) = length df"
  by (induction df) (auto simp: Let_def split: option.splits sum.splits)

lemma assign_numeric_keeps_nonnumeric:
  "i < length df \<Longrightarrow> \<not> numeric_mask (val (df ! i)) \<Longrightarrow> fst (assign_numeric flt med_df df) ! i = df ! i"
proof (induction df arbitrary: i)
  case Nil
  then show ?case by simp
next
  case (Cons r rs)
  show ?case
  proof (cases i)
    case 0
    with Cons.prems show ?thesis by (simp add: Let_def)
  next
    case (Suc j)
    with Cons show ?thesis
      by (auto simp: Let_def split: option.splits sum.splits)
  qed
qed


lemma assign_numeric_has_concl:
  "list_all (\<lambda>r. concl r \<noteq> None) df \<Longrightarrow>
     list_all (\<lambda>r. concl r \<noteq> None) (fst (assign_numeric flt med_df df))"
  by (induction df) (auto simp: Let_def split: option.splits sum.splits)

lemma fst_check_range:
  "fst (check_range flt df med_df test_count) = fst (assign_conclusions flt med_df df)"
  by (simp add: check_range_def Let_def split: option.splits)

lemma length_assign_conclusions: "length (fst (assign_conclusions flt med_df df)) = length df"
  by (simp add: assign_conclusions_def Let_def length_assign_numeric)

lemma nonnumeric_concl:
  assumes "i < length df" and "\<not> numeric_mask (val (df ! i))"
  shows "concl (fst (check_range flt df med_df test_count) ! i) = Some (Some (val (df ! i)))"
proof -
  define df2 where
    "df2 = map (\<lambda>r. if \<not> numeric_mask (val r) then r\<lparr>concl := Some (Some (val r))\<rparr> else r)
                (map (\<lambda>r. r\<lparr>concl := Some None\<rparr>) df)"
  have at: "df2 ! i = (df ! i)\<lparr>concl := Some (Some (val (df ! i)))\<rparr>" and len: "i < length df2"
    using assms by (simp_all add: df2_def)
  have "fst (assign_numeric flt med_df df2) ! i = df2 ! i"
    using len by (rule assign_numeric_keeps_nonnumeric) (simp add: at assms(2))
  moreover have "fst (check_range flt df med_df test_count) = fst (assign_numeric flt med_df df2)"
    by (simp add: fst_check_range assign_conclusions_def df2_def)
  ultimately show ?thesis by (simp add: at)
qed





subsection \<open>The range check\<close>


lemmas eval_defs = mk_row_def clean_values_map check_range_def assign_conclusions_def
  numeric_mask_def isdigit_def is_digit_low exact_decimal_def ascii_digit_def digits_value_def
  first_match_def lookup_range_def range_conclusion_def aggregate_def grouped_def bad_tests_def
  is_reported_def lower_def lower_cp_def startswith_any_def startswith_def Let_def lit_defs

lemmas sql_defs = mk_row_def main_sql_def load_medicine_def replace_comma_def sql_clean_values_def
  sql_decode_analysis_def decode_conclusion_def matches_numeric_def sql_check_correct_value_def
  sql_filter_patients_def sql_final_results_with_patients_def sql_bad_def
  exact_decimal_def ascii_digit_def digits_value_def startswith_def Let_def lit_defs



subsection \<open>Signed values\<close>

text \<open>
  C9.  In the pandas rewrite \<^verbatim>\<open>clean_values\<close> rewrites a value whose lower-cased
  text starts with "+" to the positive word and one that starts with "-" (a negative
  number such as "-5" too) to the negative word.  \<^verbatim>\<open>check_range\<close> then writes the
  negative word as the conclusion of that row whatever the reference table holds: the
  row never reaches the range check.
\<close>

theorem clean_values_signed:
  assumes "i < length df"
  shows "(startswith (lower (val (df ! i))) s_plus \<longrightarrow> val (clean_values df ! i) = Polozhitelnyj)
       \<and> (startswith (lower (val (df ! i))) s_minus \<longrightarrow>
            val (clean_values df ! i) = Otricatelnyj
            \<and> concl (fst (check_range flt (clean_values df) med_df test_count) ! i) =
                Some (Some Otricatelnyj))"
proof (intro conjI impI)
  assume "startswith (lower (val (df ! i))) s_plus"
  with assms show "val (clean_values df ! i) = Polozhitelnyj"
    by (simp add: clean_values_map startswith_any_def)
next
  assume m: "startswith (lower (val (df ! i))) s_minus"
  then have "\<not> startswith_any (lower (val (df ! i))) [s_pe, s_plus]"
    by (cases "lower (val (df ! i))") (auto simp: startswith_any_def startswith_def lit_defs)
  with m assms show v: "val (clean_values df ! i) = Otricatelnyj"
    by (simp add: clean_values_map startswith_any_def)
  have "i < length (clean_values df)"
    using assms by (simp add: clean_values_map)
  from nonnumeric_concl [OF this, of flt med_df test_count]
  show "concl (fst (check_range flt (clean_values df) med_df test_count) ! i) =
          Some (Some Otricatelnyj)"
    by (simp add: v not_numeric_words)
qed

theorem clean_values_signed_witness:
  "val (clean_values [mk_row 1 [65] [45, 53]] ! 0) = Otricatelnyj
   \<and> concl (fst (check_range exact_decimal (clean_values [mk_row 1 [65] [45, 53]]) [\<lparr>m_id = [65], m_name = [], m_kind = s_N, min_value = 10, max_value = 15\<rparr>] 2) ! 0) =
       Some (Some Otricatelnyj)
   \<and> val (clean_values [mk_row 1 [65] [43, 53]] ! 0) = Polozhitelnyj"
  using clean_values_signed [of 0 "[mk_row 1 [65] [45, 53]]" exact_decimal "[\<lparr>m_id = [65], m_name = [], m_kind = s_N, min_value = 10, max_value = 15\<rparr>]" 2]
        clean_values_signed [of 0 "[mk_row 1 [65] [43, 53]]" exact_decimal "[\<lparr>m_id = [65], m_name = [], m_kind = s_N, min_value = 10, max_value = 15\<rparr>]" 2]
  by (simp add: mk_row_def startswith_def lower_def lower_cp_def lit_defs)

subsection \<open>The caller's frame\<close>

text \<open>
  C10.  After \<^verbatim>\<open>check_range\<close> of the pandas rewrite the caller's frame has as many
  rows as before and every row has a cell in the conclusion column, so a frame that came
  without the column has changed.  After \<^verbatim>\<open>check_range\<close> of the first revision the
  caller's two frames are what they were.
\<close>

theorem check_range_writes_caller_frame:
  "length (fst (check_range flt df med_df test_count)) = length df
   \<and> (\<forall>r\<in>set (fst (check_range flt df med_df test_count)). concl r \<noteq> None)
   \<and> (df \<noteq> [] \<and> (\<forall>r\<in>set df. concl r = None) \<longrightarrow> fst (check_range flt df med_df test_count) \<noteq> df)
   \<and> fst (check_range_first flt df med_df) = df
   \<and> fst (snd (check_range_first flt df med_df)) = med_df"
proof -
  have all: "\<forall>r\<in>set (fst (check_range flt df med_df test_count)). concl r \<noteq> None"
  proof -
    have "list_all (\<lambda>r. concl r \<noteq> None) (fst (assign_conclusions flt med_df df))"
      unfolding assign_conclusions_def Let_def
      by (rule assign_numeric_has_concl) (auto simp: list_all_iff)
    then show ?thesis by (simp add: fst_check_range list_all_iff)
  qed
  have len: "length (fst (check_range flt df med_df test_count)) = length df"
    by (simp add: fst_check_range length_assign_conclusions)
  have "fst (check_range flt df med_df test_count) \<noteq> df" if "df \<noteq> []" "\<forall>r\<in>set df. concl r = None"
  proof
    assume "fst (check_range flt df med_df test_count) = df"
    with all have "\<forall>r\<in>set df. concl r \<noteq> None" by simp
    with that show False by (cases df) auto
  qed
  with all len show ?thesis
    by (simp add: check_range_first_def Let_def)
qed

theorem check_range_writes_caller_frame_witness:
  "fst (check_range exact_decimal [mk_row 1 [65] [53]] [\<lparr>m_id = [65], m_name = [], m_kind = s_N, min_value = 10, max_value = 15\<rparr>] 2) \<noteq> [mk_row 1 [65] [53]]
   \<and> fst (check_range_first exact_decimal [mk_row 1 [65] [53]] [\<lparr>m_id = [65], m_name = [], m_kind = s_N, min_value = 10, max_value = 15\<rparr>]) = [mk_row 1 [65] [53]]"
  using check_range_writes_caller_frame [of exact_decimal "[mk_row 1 [65] [53]]" "[\<lparr>m_id = [65], m_name = [], m_kind = s_N, min_value = 10, max_value = 15\<rparr>]" 2]
  by (simp add: mk_row_def)

section \<open>Runs on concrete batches\<close>

text \<open>
  C1.  The aggregation of the pandas rewrite counts every cell that is neither
  \<open>Norma\<close> nor \<open>Otricatelnyj\<close>.  Patient 1 has the values "abc" and "20" for a test
  with the range 10 to 15: one result is High, the other is no classification at all, yet
  the count of bad tests is 2, the patient passes the threshold 2 and the High row is
  reported.  The final table itself is filtered by the three words High, Low, Positive,
  and the SQL revision counts by the same three words.
\<close>

theorem check_range_counts_invalid_as_bad:
  "grouped (fst (check_range exact_decimal
       (clean_values [mk_row 1 [65] [97, 98, 99], mk_row 1 [65] [50, 48]]) [\<lparr>m_id = [65], m_name = [], m_kind = s_N, min_value = 10, max_value = 15\<rparr>] 2)) = [(1, 2, 2)]
   \<and> map concl (fst (check_range exact_decimal
       (clean_values [mk_row 1 [65] [97, 98, 99], mk_row 1 [65] [50, 48]]) [\<lparr>m_id = [65], m_name = [], m_kind = s_N, min_value = 10, max_value = 15\<rparr>] 2)) =
       [Some (Some [97, 98, 99]), Some (Some Povyshen)]
   \<and> length (filter (\<lambda>r. is_reported (concl r))
         (fst (check_range exact_decimal
           (clean_values [mk_row 1 [65] [97, 98, 99], mk_row 1 [65] [50, 48]]) [\<lparr>m_id = [65], m_name = [], m_kind = s_N, min_value = 10, max_value = 15\<rparr>] 2))) = 1
   \<and> snd (check_range exact_decimal
       (clean_values [mk_row 1 [65] [97, 98, 99], mk_row 1 [65] [50, 48]]) [\<lparr>m_id = [65], m_name = [], m_kind = s_N, min_value = 10, max_value = 15\<rparr>] 2) =
       Inr [(1, [65], Some (Some Povyshen))]"
  by (simp add: eval_defs)

text \<open>
  C2.  The pandas rewrite has no comma replacement: \<^verbatim>\<open>clean_values\<close> returns "12,5"
  as it is, the numeric mask rejects it, and \<^verbatim>\<open>check_range\<close> copies the text into
  the conclusion and counts it as a bad test.  The load loop of the SQL revision replaces
  the comma, and the same value against the range 10 to 15 is \<open>Norma\<close> there.
\<close>

theorem comma_value_not_numeric_in_pandas:
  "clean_values [mk_row 1 [65] [49, 50, 44, 53]] = [mk_row 1 [65] [49, 50, 44, 53]]
   \<and> map concl (fst (check_range exact_decimal
       (clean_values [mk_row 1 [65] [49, 50, 44, 53]]) [\<lparr>m_id = [65], m_name = [], m_kind = s_N, min_value = 10, max_value = 15\<rparr>] 2)) =
       [Some (Some [49, 50, 44, 53])]
   \<and> grouped (fst (check_range exact_decimal
       (clean_values [mk_row 1 [65] [49, 50, 44, 53]]) [\<lparr>m_id = [65], m_name = [], m_kind = s_N, min_value = 10, max_value = 15\<rparr>] 2)) = [(1, 1, 1)]
   \<and> sql_decode_analysis exact_decimal [\<lparr>m_id = [65], m_name = [], m_kind = s_N, min_value = 10, max_value = 15\<rparr>]
        (sql_clean_values (load_medicine [mk_row 1 [65] [49, 50, 44, 53]])) =
       Inr [\<lparr>d_patient = 1, d_test = [65], d_name = [], d_value = [49, 50, 46, 53],
             d_min = 10, d_max = 15, d_concl = Norma\<rparr>]"
  by (simp add: eval_defs) (simp add: sql_defs)

text \<open>
  C4.  In the pandas rewrite a row whose value is not valid is not excluded before the
  aggregation.  Patient 1 has the values "?" and "20" for a test with the range 10 to 15:
  the row with "?" is in the group, which has two tests and two bad tests, and the patient
  is reported; on the batch without that row the group has one test and nothing is
  reported.  The row changes the outcome only through the count of bad tests, the count
  of C1.  The SQL revision ends its run on the same batch with the error.
\<close>

theorem invalid_row_changes_aggregation:
  "grouped (fst (check_range exact_decimal
       (clean_values [mk_row 1 [65] [63], mk_row 1 [65] [50, 48]]) [\<lparr>m_id = [65], m_name = [], m_kind = s_N, min_value = 10, max_value = 15\<rparr>] 2)) = [(1, 2, 2)]
   \<and> snd (check_range exact_decimal
       (clean_values [mk_row 1 [65] [63], mk_row 1 [65] [50, 48]]) [\<lparr>m_id = [65], m_name = [], m_kind = s_N, min_value = 10, max_value = 15\<rparr>] 2) =
       Inr [(1, [65], Some (Some Povyshen))]
   \<and> grouped (fst (check_range exact_decimal
       (clean_values [mk_row 1 [65] [50, 48]]) [\<lparr>m_id = [65], m_name = [], m_kind = s_N, min_value = 10, max_value = 15\<rparr>] 2)) = [(1, 1, 1)]
   \<and> snd (check_range exact_decimal (clean_values [mk_row 1 [65] [50, 48]]) [\<lparr>m_id = [65], m_name = [], m_kind = s_N, min_value = 10, max_value = 15\<rparr>] 2) = Inr []
   \<and> main_sql exact_decimal [mk_row 1 [65] [63], mk_row 1 [65] [50, 48]] [\<lparr>m_id = [65], m_name = [], m_kind = s_N, min_value = 10, max_value = 15\<rparr>]
       [\<lparr>c_id = 1, c_name = [], c_phone = []\<rparr>] = Inl RaisedIncorrectValues"
  by (simp add: eval_defs) (simp add: sql_defs)

text \<open>
  C5.  In the pandas rewrite the loop looks the range up with \<^verbatim>\<open>.values[0]\<close> and no
  row is filtered by test id first: the numeric value "5" of test B, which has no range,
  raises IndexError, and the two rows of test A after it are never classified.  On the same
  batch the first revision drops the row of test B and classifies the other two, and so
  does the inner join of the SQL revision.
\<close>

theorem unknown_test_raises_in_pandas:
  "check_range exact_decimal
       (clean_values [mk_row 1 [66] [53], mk_row 1 [65] [50, 48], mk_row 1 [65] [51, 48]]) [\<lparr>m_id = [65], m_name = [], m_kind = s_N, min_value = 10, max_value = 15\<rparr>] 2 =
     ([(mk_row 1 [66] [53])\<lparr>concl := Some None\<rparr>,
       (mk_row 1 [65] [50, 48])\<lparr>concl := Some None\<rparr>,
       (mk_row 1 [65] [51, 48])\<lparr>concl := Some None\<rparr>], Inl IndexError)
   \<and> main_pandas exact_decimal
       [mk_row 1 [66] [53], mk_row 1 [65] [50, 48], mk_row 1 [65] [51, 48]] [\<lparr>m_id = [65], m_name = [], m_kind = s_N, min_value = 10, max_value = 15\<rparr>]
       [\<lparr>c_id = 1, c_name = [], c_phone = []\<rparr>] = Inl IndexError
   \<and> snd (snd (check_range_first exact_decimal
         (clean_values_first [mk_row 1 [66] [53], mk_row 1 [65] [50, 48], mk_row 1 [65] [51, 48]])
         [\<lparr>m_id = [65], m_name = [], m_kind = s_N, min_value = 10, max_value = 15\<rparr>])) =
       Inr [(mk_row 1 [65] [50, 48])\<lparr>elevated := Some (Some True)\<rparr>,
            (mk_row 1 [65] [51, 48])\<lparr>elevated := Some (Some True)\<rparr>]
   \<and> main_sql exact_decimal
       [mk_row 1 [66] [53], mk_row 1 [65] [50, 48], mk_row 1 [65] [51, 48]] [\<lparr>m_id = [65], m_name = [], m_kind = s_N, min_value = 10, max_value = 15\<rparr>]
       [\<lparr>c_id = 1, c_name = [], c_phone = []\<rparr>] =
       Inr [([], [], [], Povyshen), ([], [], [], Povyshen)]"
proof (intro conjI)
  let ?df = "[mk_row 1 [66] [53], mk_row 1 [65] [50, 48], mk_row 1 [65] [51, 48]]"
  let ?med = "[\<lparr>m_id = [65], m_name = [], m_kind = s_N, min_value = 10, max_value = 15\<rparr> :: rat med]"
  show c: "check_range exact_decimal (clean_values ?df) ?med 2 =
     ([(mk_row 1 [66] [53])\<lparr>concl := Some None\<rparr>,
       (mk_row 1 [65] [50, 48])\<lparr>concl := Some None\<rparr>,
       (mk_row 1 [65] [51, 48])\<lparr>concl := Some None\<rparr>], Inl IndexError)"
    by (simp add: eval_defs)
  have "filter_patients ?df 2 = ?df"
    by (simp add: filter_patients_filter mk_row_def)
  then show "main_pandas exact_decimal ?df ?med [\<lparr>c_id = 1, c_name = [], c_phone = []\<rparr>] =
      Inl IndexError"
    by (simp add: main_pandas_def c)
  show "snd (snd (check_range_first exact_decimal (clean_values_first ?df) ?med)) =
       Inr [(mk_row 1 [65] [50, 48])\<lparr>elevated := Some (Some True)\<rparr>,
            (mk_row 1 [65] [51, 48])\<lparr>elevated := Some (Some True)\<rparr>]"
    by (simp add: check_range_first_def clean_values_first_map eval_defs
          del: set_filter set_map set_remdups)
  show "main_sql exact_decimal ?df ?med [\<lparr>c_id = 1, c_name = [], c_phone = []\<rparr>] =
       Inr [([], [], [], Povyshen), ([], [], [], Povyshen)]"
    by (simp add: sql_defs)
qed

text \<open>
  C6.  The patterns of \<^verbatim>\<open>SQL_CLEAN_VALUES\<close> are capital letters, matched
  case-sensitively, and nothing lower-cases or upper-cases the value first: the value that
  is the small letter pe is left as it is, decoded as not valid, and the run ends with the
  error.  Both pandas revisions lower-case the value first and map the same value to their
  positive marker, which the rewrite's \<^verbatim>\<open>check_range\<close> writes as the conclusion.
\<close>

theorem lowercase_marker_invalid_in_sql:
  "sql_clean_values (load_medicine [mk_row 1 [65] s_pe]) = [mk_row 1 [65] s_pe]
   \<and> s_pe \<noteq> s_plus
   \<and> sql_decode_analysis exact_decimal [\<lparr>m_id = [65], m_name = [], m_kind = s_N, min_value = 10, max_value = 15\<rparr>]
        (sql_clean_values (load_medicine [mk_row 1 [65] s_pe])) =
       Inr [\<lparr>d_patient = 1, d_test = [65], d_name = [], d_value = s_pe,
             d_min = 10, d_max = 15, d_concl = Nekorrektnoe\<rparr>]
   \<and> Nekorrektnoe \<noteq> Polozhitelnyj
   \<and> main_sql exact_decimal [mk_row 1 [65] s_pe] [\<lparr>m_id = [65], m_name = [], m_kind = s_N, min_value = 10, max_value = 15\<rparr>] [] = Inl RaisedIncorrectValues
   \<and> clean_values_first [mk_row 1 [65] s_pe] = [mk_row 1 [65] s_plus]
   \<and> clean_values [mk_row 1 [65] s_pe] = [mk_row 1 [65] Polozhitelnyj]
   \<and> map concl (fst (check_range exact_decimal (clean_values [mk_row 1 [65] s_pe]) [\<lparr>m_id = [65], m_name = [], m_kind = s_N, min_value = 10, max_value = 15\<rparr>] 2)) =
       [Some (Some Polozhitelnyj)]"
  by (simp add: sql_defs) (simp add: clean_values_first_map eval_defs)

end
